theory Spec2Isabelle
  imports Main "HOL-Library.Sublist"
begin

section \<open>Values, messages and the in-memory state of bot.js\<close>

text \<open>
  JavaScript values as far as bot.js reads them back from its JSON stores and from HTTP
  responses: the JSON values and \<open>undefined\<close>. Numbers are integers here (epoch
  milliseconds, sizes); a text is the list of its code units, each below 256; an object is
  its list of key/value pairs, each key once.
\<close>

datatype jsval =
    JUndefined
  | JNull
  | JBool bool
  | JNum int
  | JStr string
  | JArr "jsval list"
  | JObj "(string \<times> jsval) list"

datatype js_error = TypeError

text \<open>Truthiness, as \<open>!x\<close>, \<open>x && y\<close>, \<open>x || y\<close> and \<open>x ? a : b\<close> test it.\<close>

fun truthy :: "jsval \<Rightarrow> bool" where
  "truthy JUndefined = False"
| "truthy JNull = False"
| "truthy (JBool b) = b"
| "truthy (JNum n) = (n \<noteq> 0)"
| "truthy (JStr s) = (s \<noteq> [])"
| "truthy (JArr xs) = True"
| "truthy (JObj kvs) = True"

text \<open>
  Property read \<open>v.k\<close> for a key that no primitive or array carries (\<open>aiEnabled\<close>,
  \<open>uploadEnabled\<close>, \<open>result\<close>): it throws on \<open>undefined\<close> and \<open>null\<close>, finds the key in an
  object, and is \<open>undefined\<close> everywhere else.
\<close>

fun get_prop :: "jsval \<Rightarrow> string \<Rightarrow> js_error + jsval" where
  "get_prop JUndefined k = Inl TypeError"
| "get_prop JNull k = Inl TypeError"
| "get_prop (JObj kvs) k = (case map_of kvs k of None \<Rightarrow> Inr JUndefined | Some v \<Rightarrow> Inr v)"
| "get_prop v k = Inr JUndefined"

text \<open>
  A message \<open>{role, content, timestamp}\<close>. The fields hold text and an integer as in the
  stores bot.js writes; \<open>None\<close> is a field that is absent (\<open>undefined\<close>). A character
  of a text stands for one code unit of the string, so \<open>length\<close> counts what the code
  counts; the texts of the model are those whose code units are below 256.
\<close>

record msg =
  role :: "string option"
  content :: "string option"
  timestamp :: "int option"

text \<open>Truthiness of a text field and of a number field.\<close>

definition truthy_text :: "string option \<Rightarrow> bool" where
  "truthy_text f = (case f of None \<Rightarrow> False | Some s \<Rightarrow> s \<noteq> [])"

definition truthy_num :: "int option \<Rightarrow> bool" where
  "truthy_num f = (case f of None \<Rightarrow> False | Some n \<Rightarrow> n \<noteq> 0)"

type_synonym chat_id = int

text \<open>
  The module-level variables: \<open>conversationHistory\<close> (an object keyed by chat id),
  \<open>aiEnabled\<close> and \<open>uploadEnabled\<close> (assigned from parsed JSON, so any value).
\<close>

record bot_state =
  conversationHistory :: "chat_id \<rightharpoonup> msg list"
  aiEnabled :: jsval
  uploadEnabled :: jsval

text \<open>The state of a process that has just started: lines 34, 50 and 1839.\<close>

definition initial_state :: bot_state where
  "initial_state = \<lparr> conversationHistory = Map.empty, aiEnabled = JBool True, uploadEnabled = JBool True \<rparr>"

section \<open>getRelevantConversationContext (lines 192-212)\<close>

text \<open>
  The loop runs from the newest message to the oldest; the first argument is the part of
  the history not yet visited, newest first. \<open>msg.content.length\<close> throws on a message
  without content. \<open>unshift\<close> puts the message in front of the result.
\<close>

fun context_loop :: "msg list \<Rightarrow> int \<Rightarrow> int \<Rightarrow> msg list \<Rightarrow> js_error + msg list" where
  "context_loop [] maxTokens currentTokens relevantMessages = Inr relevantMessages"
| "context_loop (m # older) maxTokens currentTokens relevantMessages =
     (case content m of
        None \<Rightarrow> Inl TypeError
      | Some c \<Rightarrow>
          (let messageTokens = int (length c) + 10
           in if currentTokens + messageTokens \<le> maxTokens
              then context_loop older maxTokens (currentTokens + messageTokens) (m # relevantMessages)
              else Inr relevantMessages))"

definition getRelevantConversationContext :: "bot_state \<Rightarrow> chat_id \<Rightarrow> int \<Rightarrow> js_error + msg list" where
  "getRelevantConversationContext s chatId maxTokens =
     (case conversationHistory s chatId of
        None \<Rightarrow> Inr []
      | Some h \<Rightarrow> if h = [] then Inr [] else context_loop (rev h) maxTokens 0 [])"

text \<open>The cost the specification sums: \<open>length(content) + 10\<close> for each message.\<close>

definition msg_cost :: "msg \<Rightarrow> int" where
  "msg_cost m = int (length (case content m of None \<Rightarrow> [] | Some c \<Rightarrow> c)) + 10"

definition sum_cost :: "msg list \<Rightarrow> int" where
  "sum_cost ms = sum_list (map msg_cost ms)"

section \<open>Files and effects\<close>

text \<open>
  A JSON file is modelled by what reading it gives: \<open>Unparseable\<close> when
  \<open>readFileSync\<close> or \<open>JSON.parse\<close> throws, and otherwise the parsed value. What
  \<open>JSON.stringify\<close> writes is modelled by the value \<open>JSON.parse\<close> reads back from it.
\<close>

datatype json_file = Unparseable | Parses jsval

text \<open>
  The conversation store \<open>otak.json\<close>: a text that does not parse, or a document of the
  shape \<open>{ chatId: [ {role, content, timestamp}, ... ] }\<close>.
\<close>

datatype store_file = CorruptStore | Store "chat_id \<rightharpoonup> msg list"

record disk =
  MEMORY_FILE :: "store_file option"
  AI_STATUS_FILE :: "json_file option"
  UPLOAD_STATUS_FILE :: "json_file option"
  quarantined :: "store_file list"

text \<open>
  What a function does besides changing the variables and the files, in the order it does
  it. Log lines and replies are named by their fixed text, without emoji and without the
  interpolated parts.
\<close>

datatype effect =
    LogInfo string
  | LogError string
  | SendChatAction chat_id
  | SendMessage chat_id string
  | AnswerCallbackQuery
  | EditMessageReplyMarkup
  | HttpGet string
  | TelegramDownload string
  | CatboxUpload
  | SetImmediateSave
  | HandleError string

section \<open>Feature flags (lines 49-71 and 1838-1863, toggles at 1524-1560)\<close>

definition loadUploadStatus :: "bot_state \<Rightarrow> disk \<Rightarrow> bot_state \<times> effect list" where
  "loadUploadStatus s d =
     (case UPLOAD_STATUS_FILE d of
        None \<Rightarrow> (s, [])
      | Some Unparseable \<Rightarrow> (s, [LogError ''Error memuat status upload''])
      | Some (Parses j) \<Rightarrow>
          (case get_prop j ''uploadEnabled'' of
             Inl e \<Rightarrow> (s, [LogError ''Error memuat status upload''])
           | Inr v \<Rightarrow> (s\<lparr>uploadEnabled := v\<rparr>, [LogInfo ''Status Upload berhasil dimuat''])))"

text \<open>\<open>JSON.stringify({ k: v })\<close> leaves out a key whose value is \<open>undefined\<close>.\<close>

definition stringify_flag :: "string \<Rightarrow> jsval \<Rightarrow> json_file" where
  "stringify_flag k v = Parses (JObj (case v of JUndefined \<Rightarrow> [] | _ \<Rightarrow> [(k, v)]))"

text \<open>\<open>fs_ok\<close> says whether \<open>writeFileSync\<close> returns; when it throws the file stays.\<close>

definition saveUploadStatus :: "bot_state \<Rightarrow> disk \<Rightarrow> bool \<Rightarrow> disk \<times> effect list" where
  "saveUploadStatus s d fs_ok =
     (if fs_ok
      then (d\<lparr>UPLOAD_STATUS_FILE := Some (stringify_flag ''uploadEnabled'' (uploadEnabled s))\<rparr>,
            [LogInfo ''Status Upload berhasil disimpan''])
      else (d, [LogError ''Error menyimpan status upload'']))"

definition loadAIStatus :: "bot_state \<Rightarrow> disk \<Rightarrow> bot_state \<times> effect list" where
  "loadAIStatus s d =
     (case AI_STATUS_FILE d of
        None \<Rightarrow> (s, [])
      | Some Unparseable \<Rightarrow> (s, [LogError ''Error memuat status AI''])
      | Some (Parses j) \<Rightarrow>
          (case get_prop j ''aiEnabled'' of
             Inl e \<Rightarrow> (s, [LogError ''Error memuat status AI''])
           | Inr v \<Rightarrow> (s\<lparr>aiEnabled := v\<rparr>, [LogInfo ''Status AI berhasil dimuat''])))"

definition saveAIStatus :: "bot_state \<Rightarrow> disk \<Rightarrow> bool \<Rightarrow> disk \<times> effect list" where
  "saveAIStatus s d fs_ok =
     (if fs_ok
      then (d\<lparr>AI_STATUS_FILE := Some (stringify_flag ''aiEnabled'' (aiEnabled s))\<rparr>,
            [LogInfo ''Status AI berhasil disimpan''])
      else (d, [LogError ''Error menyimpan status AI'']))"

text \<open>
  The branches \<open>toggle_ai\<close> and \<open>toggle_upload\<close> of the callback handler: negate, save,
  answer, redraw the keyboard. \<open>answer_ok\<close> and \<open>edit_ok\<close> say whether the two awaited
  calls to the chat platform return; both come after the save.
\<close>

definition toggle_ai ::
  "bot_state \<Rightarrow> disk \<Rightarrow> bool \<Rightarrow> bool \<Rightarrow> bool \<Rightarrow> bot_state \<times> disk \<times> effect list" where
  "toggle_ai s d fs_ok answer_ok edit_ok =
     (let s' = s\<lparr>aiEnabled := JBool (\<not> truthy (aiEnabled s))\<rparr>;
          saved = saveAIStatus s' d fs_ok
      in (s', fst saved,
          snd saved @ [AnswerCallbackQuery]
            @ (if \<not> answer_ok then [HandleError ''callback_query'']
               else [EditMessageReplyMarkup]
                      @ (if edit_ok then [] else [HandleError ''callback_query'']))))"

definition toggle_upload ::
  "bot_state \<Rightarrow> disk \<Rightarrow> bool \<Rightarrow> bool \<Rightarrow> bool \<Rightarrow> bot_state \<times> disk \<times> effect list" where
  "toggle_upload s d fs_ok answer_ok edit_ok =
     (let s' = s\<lparr>uploadEnabled := JBool (\<not> truthy (uploadEnabled s))\<rparr>;
          saved = saveUploadStatus s' d fs_ok
      in (s', fst saved,
          snd saved @ [AnswerCallbackQuery]
            @ (if \<not> answer_ok then [HandleError ''callback_query'']
               else [EditMessageReplyMarkup]
                      @ (if edit_ok then [] else [HandleError ''callback_query'']))))"

section \<open>The conversation store (lines 135-170)\<close>

text \<open>The filter \<open>msg => msg.role && msg.content\<close>.\<close>

definition valid_msg :: "msg \<Rightarrow> bool" where
  "valid_msg m = (truthy_text (role m) \<and> truthy_text (content m))"

text \<open>
  \<open>{...msg, timestamp: msg.timestamp || Date.now()}\<close>; \<open>now\<close> is the reading of the
  clock.
\<close>

definition backfill :: "int \<Rightarrow> msg \<Rightarrow> msg" where
  "backfill now m = m\<lparr>timestamp := (if truthy_num (timestamp m) then timestamp m else Some now)\<rparr>"

text \<open>
  Loading assigns every chat of the file and leaves the other chats of the variable as
  they are. A file that does not parse is renamed, which takes it away from its path.
\<close>

definition loadConversationHistory :: "bot_state \<Rightarrow> disk \<Rightarrow> int \<Rightarrow> bot_state \<times> disk \<times> effect list" where
  "loadConversationHistory s d now =
     (case MEMORY_FILE d of
        None \<Rightarrow> (s, d, [])
      | Some CorruptStore \<Rightarrow>
          (s, d\<lparr>MEMORY_FILE := None, quarantined := CorruptStore # quarantined d\<rparr>,
           [LogError ''Error memuat memori''])
      | Some (Store parsedData) \<Rightarrow>
          (s\<lparr>conversationHistory :=
               (\<lambda>chatId. case parsedData chatId of
                            None \<Rightarrow> conversationHistory s chatId
                          | Some l \<Rightarrow> Some (map (backfill now) (filter valid_msg l)))\<rparr>,
           d, [LogInfo ''Memori percakapan berhasil dimuat'']))"

definition saveConversationHistory :: "bot_state \<Rightarrow> disk \<Rightarrow> bool \<Rightarrow> disk \<times> effect list" where
  "saveConversationHistory s d fs_ok =
     (if fs_ok
      then (d\<lparr>MEMORY_FILE :=
                Some (Store (\<lambda>chatId. map_option (filter valid_msg) (conversationHistory s chatId)))\<rparr>,
            [])
      else (d, [LogError ''Error menyimpan memori'']))"

text \<open>The pair the specification compares histories by.\<close>

definition role_content :: "msg \<Rightarrow> string option \<times> string option" where
  "role_content m = (role m, content m)"

section \<open>getAIResponse (lines 215-268), clear (873-883), reset_conversation (1445-1449)\<close>

text \<open>
  \<open>BOT_CONFIG\<close> comes from config.js, which is not part of the sources: the functions
  take the fields they read as a parameter.
\<close>

record personality =
  name :: string
  systemMessage :: "string option"

record bot_config =
  defaultPersonality :: "string option"
  personalities :: "string \<rightharpoonup> personality"
  aiDisabled :: string
  apiFailure :: string

text \<open>
  The body of \<open>if (!conversationHistory[chatId])\<close>: the list a chat without an entry
  starts with.
\<close>

definition init_history :: "bot_config \<Rightarrow> int \<Rightarrow> msg list" where
  "init_history cfg now =
     (if truthy_text (defaultPersonality cfg)
      then (case personalities cfg (case defaultPersonality cfg of None \<Rightarrow> [] | Some k \<Rightarrow> k) of
              None \<Rightarrow> []
            | Some p \<Rightarrow> [\<lparr> role = Some ''system'', content = systemMessage p, timestamp = Some now \<rparr>])
      else [])"

text \<open>
  A request of axios throws with a message (no answer, a timeout, a status outside 2xx), or
  returns with \<open>response.data\<close>.
\<close>

datatype axios_result = AxiosThrew string | AxiosResponse jsval

text \<open>
  What the try block of \<open>getAIResponse\<close> makes of the request: it either throws
  (\<open>axios.get\<close> rejects, or \<open>response.data\<close> is \<open>undefined\<close> or \<open>null\<close>) or
  yields \<open>response.data.result\<close>, a text or nothing (\<open>undefined\<close>).
\<close>

datatype api_outcome = ApiFailed | ApiResult "string option"


text \<open>
  An empty array is truthy, so only a chat without an entry is initialised. \<open>now\<close> is the
  clock before the request and \<open>now'\<close> the clock after it. The result is the returned
  text, the effects and the new state. One call is followed from its start to its end: no
  other handler touches the chat while the request is awaited. \<open>pop\<close> takes the last
  element away, which then is the user message.
\<close>

definition getAIResponse ::
  "bot_config \<Rightarrow> bot_state \<Rightarrow> chat_id \<Rightarrow> string \<Rightarrow> api_outcome \<Rightarrow> int \<Rightarrow> int
     \<Rightarrow> string option \<times> effect list \<times> bot_state" where
  "getAIResponse cfg s chatId message outcome now now' =
     (if \<not> truthy (aiEnabled s) then (Some (aiDisabled cfg), [], s)
      else
        (let h0 = (case conversationHistory s chatId of
                     None \<Rightarrow> init_history cfg now
                   | Some h \<Rightarrow> h);
             h1 = h0 @ [\<lparr> role = Some ''user'', content = Some message, timestamp = Some now \<rparr>]
         in case outcome of
              ApiResult aiResponse \<Rightarrow>
                (aiResponse,
                 [HttpGet ''https://api.vreden.my.id/api/mora'', SetImmediateSave],
                 s\<lparr>conversationHistory := (conversationHistory s)
                     (chatId \<mapsto> h1 @ [\<lparr> role = Some ''assistant'', content = aiResponse,
                                          timestamp = Some now' \<rparr>])\<rparr>)
            | ApiFailed \<Rightarrow>
                (Some (apiFailure cfg),
                 [HttpGet ''https://api.vreden.my.id/api/mora'', LogError ''Error AI''],
                 s\<lparr>conversationHistory := (conversationHistory s)(chatId \<mapsto> butlast h1)\<rparr>)))"


text \<open>
  The command \<open>/clear\<close> and the branch \<open>reset_conversation\<close> of the callback handler.
  \<open>send_ok\<close> says whether the awaited \<open>sendMessage\<close> returns.
\<close>

definition clear :: "bot_state \<Rightarrow> disk \<Rightarrow> bool \<Rightarrow> bool \<Rightarrow> chat_id \<Rightarrow> bot_state \<times> disk \<times> effect list" where
  "clear s d fs_ok send_ok chatId =
     (let s' = s\<lparr>conversationHistory := (conversationHistory s)(chatId \<mapsto> [])\<rparr>;
          saved = saveConversationHistory s' d fs_ok
      in (s', fst saved,
          snd saved @ [SendMessage chatId ''Memori percakapan berhasil dihapus!'']
            @ (if send_ok then [LogInfo ''hapus memori''] else [HandleError ''clear''])))"

definition reset_conversation ::
  "bot_state \<Rightarrow> disk \<Rightarrow> bool \<Rightarrow> bool \<Rightarrow> chat_id \<Rightarrow> bot_state \<times> disk \<times> effect list" where
  "reset_conversation s d fs_ok send_ok chatId =
     (let s' = s\<lparr>conversationHistory := (conversationHistory s)(chatId \<mapsto> [])\<rparr>;
          saved = saveConversationHistory s' d fs_ok
      in (s', fst saved,
          snd saved @ [SendMessage chatId ''Memori percakapan direset!'']
            @ (if send_ok then [] else [HandleError ''callback_query''])))"


section \<open>The media relay: uploadToCatbox (74-108), downloadFileFromTelegram (110-132), the video handler (536-591)\<close>

datatype upload_result = UploadSuccess string | UploadFailure string

text \<open>
  \<open>String.prototype.trim\<close> strips white space and line terminators from both ends. Among
  the code units below 256 these are tab, line feed, vertical tab, form feed, carriage
  return, space and the no-break space U+00A0.
\<close>

definition is_space :: "char \<Rightarrow> bool" where
  "is_space c =
     (c \<in> set [CHR 0x09, CHR 0x0A, CHR 0x0B, CHR 0x0C, CHR 0x0D, CHR 0x20, CHR 0xA0])"

definition trim :: "string \<Rightarrow> string" where
  "trim s = rev (dropWhile is_space (rev (dropWhile is_space s)))"

definition catbox_prefix :: string where
  "catbox_prefix = ''https://files.catbox.moe/''"

text \<open>
  \<open>response.data && response.data.startsWith(...)\<close>: a falsy body goes to the else
  branch, where \<open>response.data || 'Upload gagal'\<close> is the fixed text; on a truthy body
  that is not a string the call of \<open>startsWith\<close> throws, and the catch block answers
  with the message of the error.
\<close>

definition uploadToCatbox :: "axios_result \<Rightarrow> upload_result \<times> effect list" where
  "uploadToCatbox r =
     (case r of
        AxiosThrew e \<Rightarrow> (UploadFailure e, [LogError ''Catbox upload error''])
      | AxiosResponse d \<Rightarrow>
          (if truthy d
           then (case d of
                   JStr body \<Rightarrow>
                     (if prefix catbox_prefix body then (UploadSuccess (trim body), [])
                      else (UploadFailure body, []))
                 | _ \<Rightarrow> (UploadFailure ''response.data.startsWith is not a function'',
                         [LogError ''Catbox upload error'']))
           else (UploadFailure ''Upload gagal'', [])))"

definition is_success :: "upload_result \<Rightarrow> bool" where
  "is_success u = (case u of UploadSuccess url \<Rightarrow> True | UploadFailure e \<Rightarrow> False)"

text \<open>
  The two requests of the download throw with a message, or give the path of the file and
  its bytes. \<open>path.basename\<close> (POSIX) ignores the slashes at the end of the path and
  gives what follows the last slash before them.
\<close>

datatype fetch_outcome = FetchThrew string | Fetched string string

datatype download_result = DownloadSuccess string string | DownloadFailure string

definition basename :: "string \<Rightarrow> string" where
  "basename p =
     rev (takeWhile (\<lambda>c. c \<noteq> CHR ''/'') (dropWhile (\<lambda>c. c = CHR ''/'') (rev p)))"

definition downloadFileFromTelegram :: "fetch_outcome \<Rightarrow> download_result \<times> effect list" where
  "downloadFileFromTelegram f =
     (case f of
        FetchThrew e \<Rightarrow> (DownloadFailure e, [LogError ''Download file error''])
      | Fetched file_path bytes \<Rightarrow> (DownloadSuccess bytes (basename file_path), []))"

record video =
  file_id :: string
  file_size :: "int option"

text \<open>What the calls of one run of the handler do: they are its inputs.\<close>

record handler_env =
  typing_ok :: bool
  fetch :: fetch_outcome
  post :: axios_result
  send_ok :: bool

definition video_too_large :: string where
  "video_too_large = ''Ukuran video terlalu besar! Maksimal 200MB.''"

text \<open>\<open>video.file_size > 200 * 1024 * 1024\<close>; the comparison is false on \<open>undefined\<close>.\<close>

definition over_limit :: "int option \<Rightarrow> bool" where
  "over_limit sz = (case sz of None \<Rightarrow> False | Some n \<Rightarrow> n > 200 * 1024 * 1024)"

definition video_handler :: "bot_state \<Rightarrow> handler_env \<Rightarrow> chat_id \<Rightarrow> video \<Rightarrow> bot_state \<times> effect list" where
  "video_handler s env chatId v =
     (if \<not> truthy (uploadEnabled s)
      then (s, [LogInfo ''mengirim video, tapi upload dinonaktifkan''])
      else if \<not> typing_ok env
      then (s, [SendChatAction chatId, HandleError ''video_upload''])
      else if over_limit (file_size v)
      then (s, [SendChatAction chatId, SendMessage chatId video_too_large])
      else
        (case downloadFileFromTelegram (fetch env) of
           (DownloadFailure e, log) \<Rightarrow>
             (s, [SendChatAction chatId, TelegramDownload (file_id v)] @ log
                 @ [SendMessage chatId (''Gagal mengunduh video: '' @ e)])
         | (DownloadSuccess buffer fileName, log) \<Rightarrow>
             (case uploadToCatbox (post env) of
                (UploadSuccess url, log') \<Rightarrow>
                  (s, [SendChatAction chatId, TelegramDownload (file_id v)] @ log
                      @ [CatboxUpload] @ log'
                      @ [SendMessage chatId (''Video berhasil diupload ke Catbox! Link: '' @ url)]
                      @ (if send_ok env then [LogInfo ''upload video ke Catbox'']
                         else [HandleError ''video_upload'']))
              | (UploadFailure e, log') \<Rightarrow>
                  (s, [SendChatAction chatId, TelegramDownload (file_id v)] @ log
                      @ [CatboxUpload] @ log'
                      @ [SendMessage chatId (''Gagal mengupload video: '' @ e)]
                      @ (if send_ok env then [] else [HandleError ''video_upload''])))))"

section \<open>Example inputs\<close>

text \<open>A chat with three messages, of costs 15, 18 and 22.\<close>

definition example_history :: "msg list" where
  "example_history =
     [\<lparr> role = Some ''user'', content = Some ''hello'', timestamp = Some 1000 \<rparr>,
      \<lparr> role = Some ''assistant'', content = Some ''hi there'', timestamp = Some 2000 \<rparr>,
      \<lparr> role = Some ''user'', content = Some ''how are you?'', timestamp = Some 3000 \<rparr>]"

definition example_state :: bot_state where
  "example_state = initial_state\<lparr>conversationHistory := [7 \<mapsto> example_history]\<rparr>"

text \<open>
  A configuration with a default personality, a disk without files, a video of 210 MB and
  a run in which every call succeeds.
\<close>

definition example_config :: bot_config where
  "example_config =
     \<lparr> defaultPersonality = Some ''default'',
       personalities = [''default'' \<mapsto> \<lparr> name = ''Default'', systemMessage = Some ''Be kind.'' \<rparr>],
       aiDisabled = ''AI is switched off'',
       apiFailure = ''The AI service failed'' \<rparr>"

definition example_disk :: disk where
  "example_disk =
     \<lparr> MEMORY_FILE = None, AI_STATUS_FILE = None, UPLOAD_STATUS_FILE = None, quarantined = [] \<rparr>"

definition example_video :: video where
  "example_video = \<lparr> file_id = ''BAACAgUAAx'', file_size = Some (210 * 1024 * 1024) \<rparr>"

definition example_env :: handler_env where
  "example_env =
     \<lparr> typing_ok = True, fetch = Fetched ''videos/file_0.mp4'' ''bytes'',
       post = AxiosResponse (JStr ''https://files.catbox.moe/abc123.mp4''), send_ok = True \<rparr>"

text \<open>
  A history whose first message has the timestamp 0 and whose second message has the empty
  text as content.
\<close>

definition falsy_history :: "msg list" where
  "falsy_history =
     [\<lparr> role = Some ''user'', content = Some ''hi'', timestamp = Some 0 \<rparr>,
      \<lparr> role = Some ''assistant'', content = Some '''', timestamp = Some 5000 \<rparr>]"

text \<open>
  A stored document whose chat holds a message without timestamp, a message without role,
  a message with the empty text as content and a well-formed message.
\<close>

definition example_store :: "chat_id \<rightharpoonup> msg list" where
  "example_store =
     [7 \<mapsto> [\<lparr> role = Some ''user'', content = Some ''hi'', timestamp = None \<rparr>,
             \<lparr> role = None, content = Some ''orphan'', timestamp = Some 2000 \<rparr>,
             \<lparr> role = Some ''assistant'', content = Some '''', timestamp = Some 3000 \<rparr>,
             \<lparr> role = Some ''assistant'', content = Some ''hello'', timestamp = Some 4000 \<rparr>]]"

section \<open>The context window\<close>

text \<open>
  The loop takes some number \<open>k\<close> of the newest messages: their running total fits, and
  the total with the message after them does not.
\<close>

lemma context_loop_take:
  assumes "\<forall>m\<in>set xs. content m \<noteq> None"
  shows "\<exists>k\<le>length xs. context_loop xs mx cur acc = Inr (rev (take k xs) @ acc)
           \<and> (0 < k \<longrightarrow> cur + sum_cost (take k xs) \<le> mx)
           \<and> (k < length xs \<longrightarrow> mx < cur + sum_cost (take k xs) + msg_cost (xs ! k))"
  using assms
proof (induction xs arbitrary: cur acc)
  case Nil
  then show ?case by simp
next
  case (Cons m older)
  from Cons.prems obtain c where c: "content m = Some c" by auto
  have cost: "msg_cost m = int (length c) + 10" by (simp add: msg_cost_def c)
  show ?case
  proof (cases "cur + msg_cost m \<le> mx")
    case False
    then have "context_loop (m # older) mx cur acc = Inr acc"
      by (simp add: c cost Let_def)
    with False show ?thesis
      by (intro exI[of _ 0]) (simp add: sum_cost_def)
  next
    case True
    from Cons.prems have "\<forall>x\<in>set older. content x \<noteq> None" by simp
    from Cons.IH[OF this, of "cur + msg_cost m" "m # acc"]
    obtain k where k: "k \<le> length older"
      "context_loop older mx (cur + msg_cost m) (m # acc) = Inr (rev (take k older) @ m # acc)"
      "0 < k \<longrightarrow> cur + msg_cost m + sum_cost (take k older) \<le> mx"
      "k < length older \<longrightarrow> mx < cur + msg_cost m + sum_cost (take k older) + msg_cost (older ! k)"
      by blast
    have run: "context_loop (m # older) mx cur acc = Inr (rev (take (Suc k) (m # older)) @ acc)"
      using True k(2) by (simp add: c cost Let_def)
    have le: "cur + sum_cost (take (Suc k) (m # older)) \<le> mx"
      using True k(3) by (cases k) (simp_all add: sum_cost_def)
    have gt: "Suc k < length (m # older) \<longrightarrow>
        mx < cur + sum_cost (take (Suc k) (m # older)) + msg_cost ((m # older) ! Suc k)"
      using k(4) by (simp add: sum_cost_def add.assoc)
    from k(1) run le gt show ?thesis
      by (intro exI[of _ "Suc k"]) simp
  qed
qed

lemma sum_cost_rev: "sum_cost (rev xs) = sum_cost xs"
  by (simp add: sum_cost_def rev_map[symmetric])

lemma msg_cost_pos: "0 < msg_cost m"
  by (simp add: msg_cost_def)

lemma context_of_history:
  assumes "h \<noteq> []" and "\<forall>m\<in>set h. content m \<noteq> None"
  shows "\<exists>older r. context_loop (rev h) B 0 [] = Inr r \<and> h = older @ r
           \<and> (r \<noteq> [] \<longrightarrow> sum_cost r \<le> B)
           \<and> (older \<noteq> [] \<longrightarrow> B < sum_cost (last older # r))"
proof -
  from assms(2) have "\<forall>m\<in>set (rev h). content m \<noteq> None" by simp
  from context_loop_take[OF this, of B 0 "[]"]
  obtain k where k: "k \<le> length h"
    "context_loop (rev h) B 0 [] = Inr (rev (take k (rev h)))"
    "0 < k \<longrightarrow> sum_cost (take k (rev h)) \<le> B"
    "k < length h \<longrightarrow> B < sum_cost (take k (rev h)) + msg_cost (rev h ! k)"
    by auto
  define older where "older = take (length h - k) h"
  define r where "r = drop (length h - k) h"
  have r_eq: "rev (take k (rev h)) = r"
    using k(1) by (simp add: r_def take_rev)
  have split: "h = older @ r" by (simp add: older_def r_def)
  have cost_r: "sum_cost (take k (rev h)) = sum_cost r"
    using r_eq sum_cost_rev[of "take k (rev h)"] by simp
  have c1: "r \<noteq> [] \<longrightarrow> sum_cost r \<le> B"
    using k(1,3) cost_r by (auto simp: r_def)
  have c2: "older \<noteq> [] \<longrightarrow> B < sum_cost (last older # r)"
  proof
    assume ne: "older \<noteq> []"
    then have lt: "k < length h" using k(1) by (auto simp: older_def)
    have "rev h ! k = h ! (length h - Suc k)"
      using lt by (simp add: rev_nth)
    also have "\<dots> = last older"
    proof -
      have len: "length older = length h - k" by (simp add: older_def)
      have "last older = older ! (length older - 1)"
        using ne by (rule last_conv_nth)
      also have "\<dots> = h ! (length h - k - 1)"
        using lt by (simp add: older_def)
      finally show ?thesis by simp
    qed
    finally have "rev h ! k = last older" .
    with k(4) lt cost_r show "B < sum_cost (last older # r)"
      by (simp add: sum_cost_def)
  qed
  from k(2) r_eq split c1 c2 show ?thesis by auto
qed

lemma last_cost_le_sum: "r \<noteq> [] \<Longrightarrow> msg_cost (last r) \<le> sum_cost r"
proof (induction r)
  case Nil
  then show ?case by simp
next
  case (Cons a r)
  have pos: "0 < msg_cost a" by (rule msg_cost_pos)
  show ?case
  proof (cases "r = []")
    case True
    then show ?thesis by (simp add: sum_cost_def)
  next
    case False
    with Cons.IH pos show ?thesis by (simp add: sum_cost_def)
  qed
qed

text \<open>
  Claim C1, as the code has it. For a chat with a non-empty history whose messages all
  carry content, and any budget \<open>B\<close>, the function returns a contiguous suffix \<open>r\<close> of the
  history in chronological order. The suffix is empty exactly when the newest message
  alone costs more than \<open>B\<close>; otherwise it ends at the last message and its summed cost
  (\<open>length(content) + 10\<close> per message) is at most \<open>B\<close>. The summed cost is at most \<open>B\<close>
  for every budget that is not negative. The suffix is maximal: with the next-older
  message the cost exceeds \<open>B\<close>.
\<close>

theorem C1_context_is_budgeted_suffix:
  assumes "conversationHistory s chatId = Some h" and "h \<noteq> []"
    and "\<forall>m\<in>set h. content m \<noteq> None"
  shows "\<exists>older r. getRelevantConversationContext s chatId B = Inr r \<and> h = older @ r
           \<and> (r = [] \<longleftrightarrow> B < msg_cost (last h))
           \<and> (r \<noteq> [] \<longrightarrow> last r = last h \<and> sum_cost r \<le> B)
           \<and> (0 \<le> B \<longrightarrow> sum_cost r \<le> B)
           \<and> (older \<noteq> [] \<longrightarrow> B < sum_cost (last older # r))"
proof -
  from context_of_history[OF assms(2,3), of B]
  obtain older r where run: "context_loop (rev h) B 0 [] = Inr r" and split: "h = older @ r"
    and fits: "r \<noteq> [] \<longrightarrow> sum_cost r \<le> B"
    and maximal: "older \<noteq> [] \<longrightarrow> B < sum_cost (last older # r)"
    by blast
  have res: "getRelevantConversationContext s chatId B = Inr r"
    using assms(1,2) run by (simp add: getRelevantConversationContext_def)
  have ends: "r \<noteq> [] \<longrightarrow> last r = last h"
    using split by auto
  have empty_iff: "r = [] \<longleftrightarrow> B < msg_cost (last h)"
  proof
    assume "r = []"
    with split assms(2) maximal show "B < msg_cost (last h)"
      by (simp add: sum_cost_def)
  next
    assume over: "B < msg_cost (last h)"
    show "r = []"
    proof (rule ccontr)
      assume ne: "r \<noteq> []"
      with fits have "sum_cost r \<le> B" by simp
      moreover from ne have "msg_cost (last r) \<le> sum_cost r" by (rule last_cost_le_sum)
      moreover from ne ends have "last r = last h" by simp
      ultimately show False using over by simp
    qed
  qed
  have nonneg: "0 \<le> B \<longrightarrow> sum_cost r \<le> B"
    using fits by (cases "r = []") (simp_all add: sum_cost_def)
  from res split empty_iff ends fits nonneg maximal show ?thesis by blast
qed

theorem C1_witness:
  "conversationHistory example_state 7 = Some example_history \<and> example_history \<noteq> []
   \<and> None \<notin> content ` set example_history
   \<and> (\<exists>older r. getRelevantConversationContext example_state 7 40 = Inr r
          \<and> example_history = older @ r
          \<and> (r = [] \<longleftrightarrow> 40 < msg_cost (last example_history))
          \<and> (r \<noteq> [] \<longrightarrow> last r = last example_history \<and> sum_cost r \<le> 40)
          \<and> ((0::int) \<le> 40 \<longrightarrow> sum_cost r \<le> 40)
          \<and> (older \<noteq> [] \<longrightarrow> 40 < sum_cost (last older # r)))"
proof -
  have a: "conversationHistory example_state 7 = Some example_history"
    by (simp add: example_state_def)
  have b: "example_history \<noteq> []" by (simp add: example_history_def)
  have c: "\<forall>m\<in>set example_history. content m \<noteq> None" by (simp add: example_history_def)
  have c': "None \<notin> content ` set example_history" by (simp add: example_history_def)
  from a b c' C1_context_is_budgeted_suffix[OF a b c, of 40] show ?thesis by blast
qed

text \<open>
  Claim C1 as stated fails for a negative budget: the result is empty, it does not end
  at the last message, and its cost 0 is above the budget \<open>-1\<close>.
\<close>

theorem C1_counterexample:
  "conversationHistory example_state 7 = Some example_history \<and> example_history \<noteq> []
   \<and> getRelevantConversationContext example_state 7 (- 1) = Inr []
   \<and> \<not> sum_cost [] \<le> (- 1 :: int)"
  by (simp add: getRelevantConversationContext_def example_state_def example_history_def sum_cost_def)

text \<open>
  Claim C2, as the code has it. When the newest message alone costs more than the budget,
  the loop breaks at its first step and the function returns the empty list: the newest
  message is not included, and neither is any older one.
\<close>

theorem C2_oversized_newest_gives_empty:
  assumes "conversationHistory s chatId = Some h" and "h \<noteq> []"
    and "content (last h) = Some c" and "B < int (length c) + 10"
  shows "getRelevantConversationContext s chatId B = Inr []"
proof -
  from assms(2) have newest_first: "rev h = last h # rev (butlast h)"
    by (cases h rule: rev_cases) simp_all
  have "context_loop (last h # rev (butlast h)) B 0 [] = Inr []"
    using assms(3,4) by (simp add: Let_def)
  then have "context_loop (rev h) B 0 [] = Inr []"
    by (simp only: newest_first)
  with assms(1,2) show ?thesis
    by (simp add: getRelevantConversationContext_def)
qed

theorem C2_witness:
  "conversationHistory example_state 7 = Some example_history \<and> example_history \<noteq> []
   \<and> content (last example_history) = Some ''how are you?''
   \<and> (15::int) < int (length ''how are you?'') + 10
   \<and> getRelevantConversationContext example_state 7 15 = Inr []"
proof -
  have a: "conversationHistory example_state 7 = Some example_history"
    by (simp add: example_state_def)
  have b: "example_history \<noteq> []" by (simp add: example_history_def)
  have c: "content (last example_history) = Some ''how are you?''"
    by (simp add: example_history_def)
  have d: "(15::int) < int (length ''how are you?'') + 10" by simp
  from a b c d C2_oversized_newest_gives_empty[OF a b c d] show ?thesis by blast
qed

text \<open>
  Claim C2 as stated fails: the newest message of the example costs 22, the budget is 15,
  and the result holds no message at all.
\<close>

theorem C2_counterexample:
  "conversationHistory example_state 7 = Some example_history
   \<and> 15 < msg_cost (last example_history)
   \<and> getRelevantConversationContext example_state 7 15 = Inr []
   \<and> last example_history \<notin> set ([] :: msg list)"
  by (simp add: getRelevantConversationContext_def example_state_def example_history_def msg_cost_def)


section \<open>The AI proxy\<close>




text \<open>
  Claim C4. After \<open>clear\<close> (or the \<open>reset_conversation\<close> callback) has set the history of
  a chat to the empty list, a successful AI turn for that chat leaves exactly the user
  message and the assistant message, whatever the configuration: the entry exists, so the
  initialisation with its system message does not run. The initialisation runs exactly
  for a chat without an entry: there the turn starts from the seed, and for a chat with
  an entry, empty or not, it starts from the list the chat has.
\<close>

theorem C4_no_reseed_after_clear:
  assumes "truthy (aiEnabled s)"
  shows "conversationHistory (snd (snd (getAIResponse cfg (fst (clear s d fs_ok snd_ok chatId)) chatId
            message (ApiResult r) now now'))) chatId
           = Some [\<lparr> role = Some ''user'', content = Some message, timestamp = Some now \<rparr>,
                   \<lparr> role = Some ''assistant'', content = r, timestamp = Some now' \<rparr>]
       \<and> conversationHistory (snd (snd (getAIResponse cfg (fst (reset_conversation s d fs_ok snd_ok chatId))
            chatId message (ApiResult r) now now'))) chatId
           = Some [\<lparr> role = Some ''user'', content = Some message, timestamp = Some now \<rparr>,
                   \<lparr> role = Some ''assistant'', content = r, timestamp = Some now' \<rparr>]
       \<and> conversationHistory (fst (clear s d fs_ok snd_ok chatId)) chatId = Some []
       \<and> conversationHistory (fst (reset_conversation s d fs_ok snd_ok chatId)) chatId = Some []
       \<and> (conversationHistory s chatId = None \<longrightarrow>
            conversationHistory (snd (snd (getAIResponse cfg s chatId message (ApiResult r) now now'))) chatId
              = Some (init_history cfg now
                      @ [\<lparr> role = Some ''user'', content = Some message, timestamp = Some now \<rparr>,
                         \<lparr> role = Some ''assistant'', content = r, timestamp = Some now' \<rparr>]))
       \<and> (\<forall>h. conversationHistory s chatId = Some h \<longrightarrow>
            conversationHistory (snd (snd (getAIResponse cfg s chatId message (ApiResult r) now now'))) chatId
              = Some (h @ [\<lparr> role = Some ''user'', content = Some message, timestamp = Some now \<rparr>,
                           \<lparr> role = Some ''assistant'', content = r, timestamp = Some now' \<rparr>]))"
  using assms
  by (simp add: getAIResponse_def clear_def reset_conversation_def Let_def)

theorem C4_witness:
  "truthy (aiEnabled example_state)
   \<and> init_history example_config 4000
       = [\<lparr> role = Some ''system'', content = Some ''Be kind.'', timestamp = Some 4000 \<rparr>]
   \<and> conversationHistory (snd (snd (getAIResponse example_config
          (fst (clear example_state example_disk True True 7)) 7 ''ping'' (ApiResult (Some ''pong'')) 4000 5000))) 7
       = Some [\<lparr> role = Some ''user'', content = Some ''ping'', timestamp = Some 4000 \<rparr>,
               \<lparr> role = Some ''assistant'', content = Some ''pong'', timestamp = Some 5000 \<rparr>]"
proof -
  have a: "truthy (aiEnabled example_state)" by (simp add: example_state_def initial_state_def)
  have b: "init_history example_config 4000
       = [\<lparr> role = Some ''system'', content = Some ''Be kind.'', timestamp = Some 4000 \<rparr>]"
    by (simp add: init_history_def example_config_def truthy_text_def)
  from C4_no_reseed_after_clear[OF a, of example_config example_disk True True 7 "''ping''" "Some ''pong''" 4000 5000] a b
  show ?thesis by simp
qed

text \<open>
  Claim C8. When the AI flag is falsy, \<open>getAIResponse\<close> returns the disabled notice,
  makes no request (it has no effect at all) and leaves the state, and with it the history
  of every chat, as it was.
\<close>

theorem C8_disabled_is_inert:
  assumes "\<not> truthy (aiEnabled s)"
  shows "getAIResponse cfg s chatId message outcome now now' = (Some (aiDisabled cfg), [], s)"
  using assms by (simp add: getAIResponse_def)

theorem C8_witness:
  "\<not> truthy (aiEnabled (example_state\<lparr>aiEnabled := JBool False\<rparr>))
   \<and> getAIResponse example_config (example_state\<lparr>aiEnabled := JBool False\<rparr>) 7 ''ping''
        (ApiResult (Some ''pong'')) 4000 5000
      = (Some ''AI is switched off'', [], example_state\<lparr>aiEnabled := JBool False\<rparr>)"
proof -
  have a: "\<not> truthy (aiEnabled (example_state\<lparr>aiEnabled := JBool False\<rparr>))" by simp
  from C8_disabled_is_inert[OF a, of example_config 7 "''ping''" "ApiResult (Some ''pong'')" 4000 5000] a
  show ?thesis by (simp add: example_config_def)
qed

section \<open>The media relay\<close>

text \<open>The result of the upload for a body that is a text, and for any other body.\<close>

lemma upload_of_text:
  "fst (uploadToCatbox (AxiosResponse (JStr body)))
     = (if prefix catbox_prefix body then UploadSuccess (trim body)
        else if body = [] then UploadFailure ''Upload gagal'' else UploadFailure body)"
  by (simp add: uploadToCatbox_def catbox_prefix_def)

lemma upload_of_other:
  assumes "\<forall>body. d \<noteq> JStr body"
  shows "fst (uploadToCatbox (AxiosResponse d))
     = (if truthy d then UploadFailure ''response.data.startsWith is not a function''
        else UploadFailure ''Upload gagal'')"
  using assms by (cases d) (simp_all add: uploadToCatbox_def)

text \<open>
  Claim C5, as the code has it. The upload result is a success exactly when the body is
  a text that starts with the address of the host's file domain, and then the link is the
  trimmed body. A text that is not empty and does not start so is a failure whose error is
  the text itself. A falsy body (the empty text, \<open>null\<close>, \<open>undefined\<close>) is a failure
  whose error is the fixed text \<open>Upload gagal\<close>. A truthy body that is not a text, such
  as an error JSON that arrives parsed as an object, is a failure whose error is the
  message of the type error, \<open>response.data.startsWith is not a function\<close>, and the
  response is not preserved. A request that throws is a failure with the message of
  the error.
\<close>

theorem C5_upload_success_criterion:
  "(is_success (fst (uploadToCatbox (AxiosResponse d)))
      \<longleftrightarrow> (\<exists>body. d = JStr body \<and> prefix catbox_prefix body))
   \<and> (prefix catbox_prefix body \<longrightarrow>
        fst (uploadToCatbox (AxiosResponse (JStr body))) = UploadSuccess (trim body))
   \<and> (\<not> prefix catbox_prefix body \<and> body \<noteq> [] \<longrightarrow>
        fst (uploadToCatbox (AxiosResponse (JStr body))) = UploadFailure body)
   \<and> (\<not> truthy d \<longrightarrow>
        fst (uploadToCatbox (AxiosResponse d)) = UploadFailure ''Upload gagal'')
   \<and> (truthy d \<and> (\<forall>b. d \<noteq> JStr b) \<longrightarrow>
        uploadToCatbox (AxiosResponse d)
          = (UploadFailure ''response.data.startsWith is not a function'',
             [LogError ''Catbox upload error'']))
   \<and> uploadToCatbox (AxiosResponse (JObj kvs))
        = (UploadFailure ''response.data.startsWith is not a function'',
           [LogError ''Catbox upload error''])
   \<and> uploadToCatbox (AxiosThrew e) = (UploadFailure e, [LogError ''Catbox upload error''])"
proof -
  have iff: "is_success (fst (uploadToCatbox (AxiosResponse d)))
      \<longleftrightarrow> (\<exists>body. d = JStr body \<and> prefix catbox_prefix body)"
  proof (cases "\<exists>body. d = JStr body")
    case True
    then obtain b where "d = JStr b" by blast
    then show ?thesis by (simp add: upload_of_text is_success_def)
  next
    case False
    then have "\<forall>body. d \<noteq> JStr body" by blast
    from upload_of_other[OF this] False show ?thesis by (simp add: is_success_def)
  qed
  have of_text: "(prefix catbox_prefix body \<longrightarrow>
        fst (uploadToCatbox (AxiosResponse (JStr body))) = UploadSuccess (trim body))
   \<and> (\<not> prefix catbox_prefix body \<and> body \<noteq> [] \<longrightarrow>
        fst (uploadToCatbox (AxiosResponse (JStr body))) = UploadFailure body)"
    by (simp add: upload_of_text)
  have falsy: "\<not> truthy d \<longrightarrow>
        fst (uploadToCatbox (AxiosResponse d)) = UploadFailure ''Upload gagal''"
    by (simp add: uploadToCatbox_def)
  have other: "truthy d \<and> (\<forall>b. d \<noteq> JStr b) \<longrightarrow>
        uploadToCatbox (AxiosResponse d)
          = (UploadFailure ''response.data.startsWith is not a function'',
             [LogError ''Catbox upload error''])"
    by (cases d) (simp_all add: uploadToCatbox_def)
  have obj: "uploadToCatbox (AxiosResponse (JObj kvs))
        = (UploadFailure ''response.data.startsWith is not a function'',
           [LogError ''Catbox upload error''])"
    by (simp add: uploadToCatbox_def)
  have threw: "uploadToCatbox (AxiosThrew e) = (UploadFailure e, [LogError ''Catbox upload error''])"
    by (simp add: uploadToCatbox_def)
  from iff of_text falsy other obj threw show ?thesis by blast
qed

theorem C5_witness:
  "is_success (fst (uploadToCatbox (AxiosResponse (JStr ''https://files.catbox.moe/abc123.mp4''))))
   \<and> fst (uploadToCatbox (AxiosResponse (JStr ''https://files.catbox.moe/abc123.mp4'')))
       = UploadSuccess ''https://files.catbox.moe/abc123.mp4''
   \<and> \<not> is_success (fst (uploadToCatbox (AxiosResponse (JStr ''No files were uploaded.''))))
   \<and> fst (uploadToCatbox (AxiosResponse (JStr ''No files were uploaded.'')))
       = UploadFailure ''No files were uploaded.''
   \<and> \<not> is_success (fst (uploadToCatbox (AxiosResponse JNull)))"
proof -
  have p: "prefix catbox_prefix ''https://files.catbox.moe/abc123.mp4''"
    by (simp add: catbox_prefix_def)
  have t: "trim ''https://files.catbox.moe/abc123.mp4'' = ''https://files.catbox.moe/abc123.mp4''"
    by (simp add: trim_def is_space_def)
  have n: "\<not> prefix catbox_prefix ''No files were uploaded.''"
    by (simp add: catbox_prefix_def)
  from C5_upload_success_criterion[where d = "JStr ''https://files.catbox.moe/abc123.mp4''"
      and body = "''https://files.catbox.moe/abc123.mp4''"]
    C5_upload_success_criterion[where d = "JStr ''No files were uploaded.''"
      and body = "''No files were uploaded.''"]
    C5_upload_success_criterion[where d = JNull] p t n
  show ?thesis by (simp add: is_success_def)
qed

text \<open>
  Claim C5 as stated fails on the two bodies it names: for the empty body the failure
  carries the fixed text and not the (empty) response, and for an error JSON that arrives
  as an object it carries the message of the type error and not the response.
\<close>

theorem C5_counterexample:
  "\<not> is_success (fst (uploadToCatbox (AxiosResponse (JStr ''''))))
   \<and> fst (uploadToCatbox (AxiosResponse (JStr ''''))) = UploadFailure ''Upload gagal''
   \<and> fst (uploadToCatbox (AxiosResponse (JStr ''''))) \<noteq> UploadFailure ''''
   \<and> uploadToCatbox (AxiosResponse (JObj [(''error'', JStr ''File is too large'')]))
       = (UploadFailure ''response.data.startsWith is not a function'',
          [LogError ''Catbox upload error''])"
  by (simp add: uploadToCatbox_def is_success_def)

text \<open>With a size over the limit the handler ends in one of its first three branches.\<close>

lemma video_handler_effects_over_limit:
  assumes "over_limit (file_size v)"
  shows "snd (video_handler s env chatId v) = [LogInfo ''mengirim video, tapi upload dinonaktifkan'']
       \<or> snd (video_handler s env chatId v) = [SendChatAction chatId, HandleError ''video_upload'']
       \<or> snd (video_handler s env chatId v) = [SendChatAction chatId, SendMessage chatId video_too_large]"
  using assms by (simp add: video_handler_def)

lemma video_handler_state: "fst (video_handler s env chatId v) = s"
  by (simp add: video_handler_def split: prod.splits download_result.splits upload_result.splits)

text \<open>
  Claim C6, as the code has it. For a video whose reported size exceeds 200 MB the handler
  never downloads or uploads and leaves the state unchanged; when the upload flag is
  truthy and the typing action went through, what it does is exactly the typing action
  and the fixed too-large reply.
\<close>

theorem C6_video_too_large:
  assumes "file_size v = Some n" and "200 * 1024 * 1024 < n"
  shows "fst (video_handler s env chatId v) = s
       \<and> (\<forall>f. TelegramDownload f \<notin> set (snd (video_handler s env chatId v)))
       \<and> CatboxUpload \<notin> set (snd (video_handler s env chatId v))
       \<and> (truthy (uploadEnabled s) \<and> typing_ok env \<longrightarrow>
            video_handler s env chatId v = (s, [SendChatAction chatId, SendMessage chatId video_too_large]))"
proof -
  from assms have over: "over_limit (file_size v)" by (simp add: over_limit_def)
  from video_handler_effects_over_limit[OF over, of s env chatId]
  have quiet: "(\<forall>f. TelegramDownload f \<notin> set (snd (video_handler s env chatId v)))
       \<and> CatboxUpload \<notin> set (snd (video_handler s env chatId v))"
    by auto
  have reply: "truthy (uploadEnabled s) \<and> typing_ok env \<longrightarrow>
      video_handler s env chatId v = (s, [SendChatAction chatId, SendMessage chatId video_too_large])"
    using over by (simp add: video_handler_def)
  from video_handler_state quiet reply show ?thesis by blast
qed

theorem C6_witness:
  "file_size example_video = Some (210 * 1024 * 1024)
   \<and> (200 * 1024 * 1024 :: int) < 210 * 1024 * 1024
   \<and> truthy (uploadEnabled initial_state) \<and> typing_ok example_env
   \<and> video_handler initial_state example_env 7 example_video
       = (initial_state, [SendChatAction 7, SendMessage 7 video_too_large])"
proof -
  have a: "file_size example_video = Some (210 * 1024 * 1024)" by (simp add: example_video_def)
  have b: "(200 * 1024 * 1024 :: int) < 210 * 1024 * 1024" by simp
  have c: "truthy (uploadEnabled initial_state) \<and> typing_ok example_env"
    by (simp add: initial_state_def example_env_def)
  from C6_video_too_large[OF a b, of initial_state example_env 7] a b c
  show ?thesis by simp
qed

text \<open>
  Claim C6 as stated fails when uploads are disabled: the handler writes a log line and
  returns before the size check, and sends no reply.
\<close>

theorem C6_counterexample:
  "file_size example_video = Some (210 * 1024 * 1024)
   \<and> video_handler (initial_state\<lparr>uploadEnabled := JBool False\<rparr>) example_env 7 example_video
       = (initial_state\<lparr>uploadEnabled := JBool False\<rparr>,
          [LogInfo ''mengirim video, tapi upload dinonaktifkan''])
   \<and> SendMessage 7 video_too_large
       \<notin> set (snd (video_handler (initial_state\<lparr>uploadEnabled := JBool False\<rparr>) example_env 7 example_video))"
  by (simp add: video_handler_def example_video_def)


section \<open>The stores\<close>

text \<open>
  Backfilling changes the timestamp only. Saving writes the valid entries of every chat,
  loading keeps the valid entries of every chat of the file, and the two compose.
\<close>

lemma role_content_backfill: "role_content (backfill now m) = role_content m"
  by (simp add: role_content_def backfill_def)

lemma save_then_load:
  "conversationHistory (fst (loadConversationHistory s0 (fst (saveConversationHistory s d True)) now)) chatId
     = (case conversationHistory s chatId of
          None \<Rightarrow> conversationHistory s0 chatId
        | Some h \<Rightarrow> Some (map (backfill now) (filter valid_msg h)))"
  by (simp add: loadConversationHistory_def saveConversationHistory_def split: option.splits)

lemma backfill_fields:
  "role (backfill now m) = role m \<and> content (backfill now m) = content m
   \<and> timestamp (backfill now m) = (if truthy_num (timestamp m) then timestamp m else Some now)"
  by (simp add: backfill_def)

lemma save_writes_valid:
  "MEMORY_FILE (fst (saveConversationHistory s d True))
     = Some (Store (\<lambda>c. map_option (filter valid_msg) (conversationHistory s c)))"
  by (simp add: saveConversationHistory_def)

lemma load_filters:
  assumes "MEMORY_FILE d0 = Some (Store doc0)"
  shows "conversationHistory (fst (loadConversationHistory s0 d0 now)) c
     = (case doc0 c of None \<Rightarrow> conversationHistory s0 c
        | Some l \<Rightarrow> Some (map (backfill now) (filter valid_msg l)))"
  using assms by (simp add: loadConversationHistory_def)

text \<open>
  Claim C7, as the code has it. An entry is valid when its role and its content are both
  truthy (present and not the empty text). Saving a conversation history and loading the
  file in a fresh process gives, for every chat, the valid entries in their order and with
  the same role and content; when every entry of the chat is valid, that is the sequence
  that was saved. The other entries are dropped on both sides: the file written holds,
  for every chat, exactly the valid entries of the history (and no chat that the history
  does not have), and loading any stored document keeps, for every chat of the document,
  exactly its valid entries and leaves the chats it does not have as they were. Loading
  changes the timestamp only: one that is present and not 0 is kept, one that is absent
  or 0 is replaced by the reading of the clock.
\<close>

theorem C7_save_then_load:
  assumes "conversationHistory s chatId = Some h"
  shows "(\<exists>h'. conversationHistory
                (fst (loadConversationHistory initial_state (fst (saveConversationHistory s d True)) now))
                chatId = Some h'
           \<and> map role_content h' = map role_content (filter valid_msg h)
           \<and> length h' = length (filter valid_msg h)
           \<and> (\<forall>i<length h'. timestamp (h' ! i)
                  = (if truthy_num (timestamp (filter valid_msg h ! i))
                     then timestamp (filter valid_msg h ! i) else Some now))
           \<and> ((\<forall>m\<in>set h. valid_msg m) \<longrightarrow> map role_content h' = map role_content h))
       \<and> (\<exists>doc. MEMORY_FILE (fst (saveConversationHistory s d True)) = Some (Store doc)
             \<and> doc chatId = Some (filter valid_msg h)
             \<and> (\<forall>c. conversationHistory s c = None \<longrightarrow> doc c = None))
       \<and> (MEMORY_FILE dsk = Some (Store stored) \<and> stored chatId = Some l \<longrightarrow>
            conversationHistory (fst (loadConversationHistory mem dsk now)) chatId
              = Some (map (backfill now) (filter valid_msg l)))
       \<and> (MEMORY_FILE dsk = Some (Store stored) \<and> stored chatId = None \<longrightarrow>
            conversationHistory (fst (loadConversationHistory mem dsk now)) chatId
              = conversationHistory mem chatId)
       \<and> role (backfill now m) = role m \<and> content (backfill now m) = content m
       \<and> timestamp (backfill now m) = (if truthy_num (timestamp m) then timestamp m else Some now)"
proof -
  let ?h' = "map (backfill now) (filter valid_msg h)"
  have loaded: "conversationHistory
      (fst (loadConversationHistory initial_state (fst (saveConversationHistory s d True)) now)) chatId
      = Some ?h'"
    using assms by (simp add: save_then_load)
  have pairs: "map role_content ?h' = map role_content (filter valid_msg h)"
    by (simp add: role_content_backfill)
  have stamps: "\<forall>i<length ?h'. timestamp (?h' ! i)
      = (if truthy_num (timestamp (filter valid_msg h ! i))
         then timestamp (filter valid_msg h ! i) else Some now)"
    by (simp add: backfill_def)
  have all_valid: "(\<forall>m\<in>set h. valid_msg m) \<longrightarrow> map role_content ?h' = map role_content h"
  proof
    assume "\<forall>m\<in>set h. valid_msg m"
    then have "filter valid_msg h = h" by (simp add: filter_id_conv)
    with pairs show "map role_content ?h' = map role_content h" by simp
  qed
  from loaded pairs stamps all_valid
  have round_trip: "\<exists>h'. conversationHistory
                (fst (loadConversationHistory initial_state (fst (saveConversationHistory s d True)) now))
                chatId = Some h'
           \<and> map role_content h' = map role_content (filter valid_msg h)
           \<and> length h' = length (filter valid_msg h)
           \<and> (\<forall>i<length h'. timestamp (h' ! i)
                  = (if truthy_num (timestamp (filter valid_msg h ! i))
                     then timestamp (filter valid_msg h ! i) else Some now))
           \<and> ((\<forall>m\<in>set h. valid_msg m) \<longrightarrow> map role_content h' = map role_content h)"
    by (intro exI[of _ ?h']) simp
  have written: "\<exists>doc. MEMORY_FILE (fst (saveConversationHistory s d True)) = Some (Store doc)
             \<and> doc chatId = Some (filter valid_msg h)
             \<and> (\<forall>c. conversationHistory s c = None \<longrightarrow> doc c = None)"
    using assms
    by (intro exI[of _ "\<lambda>c. map_option (filter valid_msg) (conversationHistory s c)"])
       (simp add: save_writes_valid)
  have load_some: "MEMORY_FILE dsk = Some (Store stored) \<and> stored chatId = Some l \<longrightarrow>
            conversationHistory (fst (loadConversationHistory mem dsk now)) chatId
              = Some (map (backfill now) (filter valid_msg l))"
    by (simp add: load_filters)
  have load_none: "MEMORY_FILE dsk = Some (Store stored) \<and> stored chatId = None \<longrightarrow>
            conversationHistory (fst (loadConversationHistory mem dsk now)) chatId
              = conversationHistory mem chatId"
    by (simp add: load_filters)
  from round_trip written load_some load_none backfill_fields[of now m]
  show ?thesis by blast
qed

theorem C7_witness:
  "conversationHistory example_state 7 = Some example_history
   \<and> filter valid_msg example_history = example_history
   \<and> (\<exists>h'. conversationHistory
                (fst (loadConversationHistory initial_state
                        (fst (saveConversationHistory example_state example_disk True)) 9000)) 7 = Some h'
          \<and> map role_content h' = map role_content example_history
          \<and> length h' = 3
          \<and> timestamp (h' ! 0) = Some 1000)
   \<and> (\<exists>doc. MEMORY_FILE (fst (saveConversationHistory example_state example_disk True))
               = Some (Store doc)
          \<and> doc 7 = Some example_history)
   \<and> conversationHistory
        (fst (loadConversationHistory initial_state
                (example_disk\<lparr>MEMORY_FILE := Some (Store example_store)\<rparr>) 9000)) 7
       = Some [\<lparr> role = Some ''user'', content = Some ''hi'', timestamp = Some 9000 \<rparr>,
               \<lparr> role = Some ''assistant'', content = Some ''hello'', timestamp = Some 4000 \<rparr>]"
proof -
  have a: "conversationHistory example_state 7 = Some example_history"
    by (simp add: example_state_def)
  have v: "filter valid_msg example_history = example_history"
    by (simp add: example_history_def valid_msg_def truthy_text_def)
  have l: "length example_history = 3" by (simp add: example_history_def)
  have t: "timestamp (example_history ! 0) = Some 1000" by (simp add: example_history_def)
  have f: "MEMORY_FILE (example_disk\<lparr>MEMORY_FILE := Some (Store example_store)\<rparr>)
             = Some (Store example_store)
           \<and> example_store 7
               = Some [\<lparr> role = Some ''user'', content = Some ''hi'', timestamp = None \<rparr>,
                       \<lparr> role = None, content = Some ''orphan'', timestamp = Some 2000 \<rparr>,
                       \<lparr> role = Some ''assistant'', content = Some '''', timestamp = Some 3000 \<rparr>,
                       \<lparr> role = Some ''assistant'', content = Some ''hello'', timestamp = Some 4000 \<rparr>]"
    by (simp add: example_store_def)
  note inst = C7_save_then_load[OF a, where d = example_disk and now = 9000
      and dsk = "example_disk\<lparr>MEMORY_FILE := Some (Store example_store)\<rparr>"
      and stored = example_store and mem = initial_state
      and l = "[\<lparr> role = Some ''user'', content = Some ''hi'', timestamp = None \<rparr>,
                \<lparr> role = None, content = Some ''orphan'', timestamp = Some 2000 \<rparr>,
                \<lparr> role = Some ''assistant'', content = Some '''', timestamp = Some 3000 \<rparr>,
                \<lparr> role = Some ''assistant'', content = Some ''hello'', timestamp = Some 4000 \<rparr>]"]
  note c1 = inst[THEN conjunct1]
  note c2 = inst[THEN conjunct2, THEN conjunct1]
  note c3 = inst[THEN conjunct2, THEN conjunct2, THEN conjunct1]
  from c3 f have loaded: "conversationHistory
        (fst (loadConversationHistory initial_state
                (example_disk\<lparr>MEMORY_FILE := Some (Store example_store)\<rparr>) 9000)) 7
       = Some [\<lparr> role = Some ''user'', content = Some ''hi'', timestamp = Some 9000 \<rparr>,
               \<lparr> role = Some ''assistant'', content = Some ''hello'', timestamp = Some 4000 \<rparr>]"
    by (simp add: valid_msg_def truthy_text_def truthy_num_def backfill_def)
  from c1 a v l t have rt: "\<exists>h'. conversationHistory
                (fst (loadConversationHistory initial_state
                        (fst (saveConversationHistory example_state example_disk True)) 9000)) 7 = Some h'
          \<and> map role_content h' = map role_content example_history
          \<and> length h' = 3
          \<and> timestamp (h' ! 0) = Some 1000"
    by (auto simp: truthy_num_def)
  from c2 v have wr: "\<exists>doc. MEMORY_FILE (fst (saveConversationHistory example_state example_disk True))
               = Some (Store doc) \<and> doc 7 = Some example_history"
    by auto
  from a v rt wr loaded show ?thesis by blast
qed

text \<open>
  Claim C7 as stated fails on entries that are present but falsy: the assistant message
  whose content is the empty text has a role and a content and is dropped, and the
  timestamp 0 of the user message is present and is replaced by the clock.
\<close>

theorem C7_counterexample:
  "map role_content falsy_history = [(Some ''user'', Some ''hi''), (Some ''assistant'', Some '''')]
   \<and> map timestamp falsy_history = [Some 0, Some 5000]
   \<and> conversationHistory
        (fst (loadConversationHistory initial_state
           (fst (saveConversationHistory (initial_state\<lparr>conversationHistory := [7 \<mapsto> falsy_history]\<rparr>)
                   example_disk True)) 9000)) 7
       = Some [\<lparr> role = Some ''user'', content = Some ''hi'', timestamp = Some 9000 \<rparr>]"
  by (simp add: loadConversationHistory_def saveConversationHistory_def falsy_history_def
      valid_msg_def truthy_text_def truthy_num_def backfill_def role_content_def)

text \<open>
  Claim C9. For each of the two flags: the toggle sets the flag to a boolean and, when the
  write succeeds, stores it; loading that file in a fresh process yields the same boolean.
  The same holds for either boolean value saved directly.
\<close>

theorem C9_flag_round_trip:
  "aiEnabled (fst (toggle_ai s d True answer_ok edit_ok)) = JBool (\<not> truthy (aiEnabled s))
   \<and> AI_STATUS_FILE (fst (snd (toggle_ai s d True answer_ok edit_ok)))
       = Some (Parses (JObj [(''aiEnabled'', JBool (\<not> truthy (aiEnabled s)))]))
   \<and> aiEnabled (fst (loadAIStatus initial_state (fst (snd (toggle_ai s d True answer_ok edit_ok)))))
       = JBool (\<not> truthy (aiEnabled s))
   \<and> uploadEnabled (fst (toggle_upload s d True answer_ok edit_ok)) = JBool (\<not> truthy (uploadEnabled s))
   \<and> UPLOAD_STATUS_FILE (fst (snd (toggle_upload s d True answer_ok edit_ok)))
       = Some (Parses (JObj [(''uploadEnabled'', JBool (\<not> truthy (uploadEnabled s)))]))
   \<and> uploadEnabled (fst (loadUploadStatus initial_state (fst (snd (toggle_upload s d True answer_ok edit_ok)))))
       = JBool (\<not> truthy (uploadEnabled s))
   \<and> aiEnabled (fst (loadAIStatus initial_state (fst (saveAIStatus (s\<lparr>aiEnabled := JBool b\<rparr>) d True))))
       = JBool b
   \<and> uploadEnabled (fst (loadUploadStatus initial_state
         (fst (saveUploadStatus (s\<lparr>uploadEnabled := JBool b\<rparr>) d True)))) = JBool b"
  by (simp add: toggle_ai_def toggle_upload_def saveAIStatus_def saveUploadStatus_def
      loadAIStatus_def loadUploadStatus_def stringify_flag_def Let_def)

theorem C9_witness:
  "aiEnabled (fst (toggle_ai initial_state example_disk True True True)) = JBool False
   \<and> aiEnabled (fst (loadAIStatus initial_state (fst (snd (toggle_ai initial_state example_disk True True True)))))
       = JBool False
   \<and> uploadEnabled (fst (loadUploadStatus initial_state
        (fst (snd (toggle_upload (initial_state\<lparr>uploadEnabled := JBool False\<rparr>) example_disk True True True)))))
       = JBool True"
  using C9_flag_round_trip[where s = initial_state and d = example_disk
      and answer_ok = True and edit_ok = True]
    C9_flag_round_trip[where s = "initial_state\<lparr>uploadEnabled := JBool False\<rparr>"
      and d = example_disk and answer_ok = True and edit_ok = True]
  by (simp add: initial_state_def)

text \<open>
  Claim C10, as the code has it. Both flags start as true. For each flag: without a file
  the load changes nothing and logs nothing; with a file that does not parse, or that
  parses to \<open>null\<close>, the load logs the error and keeps the flag; with a file that parses
  to an object the flag becomes the value of the flag's key in it, whatever that value is,
  and \<open>undefined\<close> when the key is missing, and no error is logged.
\<close>

theorem C10_flag_load:
  "aiEnabled initial_state = JBool True \<and> uploadEnabled initial_state = JBool True
   \<and> (AI_STATUS_FILE d = None \<longrightarrow> loadAIStatus s d = (s, []))
   \<and> (AI_STATUS_FILE d = Some Unparseable \<or> AI_STATUS_FILE d = Some (Parses JNull) \<longrightarrow>
        loadAIStatus s d = (s, [LogError ''Error memuat status AI'']))
   \<and> (AI_STATUS_FILE d = Some (Parses (JObj kvs)) \<longrightarrow>
        loadAIStatus s d
          = (s\<lparr>aiEnabled := (case map_of kvs ''aiEnabled'' of None \<Rightarrow> JUndefined | Some v \<Rightarrow> v)\<rparr>,
             [LogInfo ''Status AI berhasil dimuat'']))
   \<and> (UPLOAD_STATUS_FILE d = None \<longrightarrow> loadUploadStatus s d = (s, []))
   \<and> (UPLOAD_STATUS_FILE d = Some Unparseable \<or> UPLOAD_STATUS_FILE d = Some (Parses JNull) \<longrightarrow>
        loadUploadStatus s d = (s, [LogError ''Error memuat status upload'']))
   \<and> (UPLOAD_STATUS_FILE d = Some (Parses (JObj kvs)) \<longrightarrow>
        loadUploadStatus s d
          = (s\<lparr>uploadEnabled := (case map_of kvs ''uploadEnabled'' of None \<Rightarrow> JUndefined | Some v \<Rightarrow> v)\<rparr>,
             [LogInfo ''Status Upload berhasil dimuat'']))"
  by (auto simp: initial_state_def loadAIStatus_def loadUploadStatus_def split: option.splits)

theorem C10_witness:
  "loadAIStatus initial_state example_disk = (initial_state, [])
   \<and> loadUploadStatus initial_state (example_disk\<lparr>UPLOAD_STATUS_FILE := Some Unparseable\<rparr>)
       = (initial_state, [LogError ''Error memuat status upload''])
   \<and> loadAIStatus initial_state
        (example_disk\<lparr>AI_STATUS_FILE := Some (Parses (JObj [(''aiEnabled'', JBool False)]))\<rparr>)
       = (initial_state\<lparr>aiEnabled := JBool False\<rparr>, [LogInfo ''Status AI berhasil dimuat''])"
  using C10_flag_load[where d = example_disk and s = initial_state]
    C10_flag_load[where d = "example_disk\<lparr>UPLOAD_STATUS_FILE := Some Unparseable\<rparr>"
      and s = initial_state]
    C10_flag_load[where d = "example_disk\<lparr>AI_STATUS_FILE :=
        Some (Parses (JObj [(''aiEnabled'', JBool False)]))\<rparr>"
      and kvs = "[(''aiEnabled'', JBool False)]" and s = initial_state]
  by (simp add: example_disk_def)

text \<open>
  Claim C10 as stated fails on a record that parses but is not of the expected shape: from
  the empty object the flag becomes \<open>undefined\<close>, which is not a boolean and reads as
  disabled, and from a text value it becomes that text; neither logs an error.
\<close>

theorem C10_counterexample:
  "loadAIStatus initial_state (example_disk\<lparr>AI_STATUS_FILE := Some (Parses (JObj []))\<rparr>)
     = (initial_state\<lparr>aiEnabled := JUndefined\<rparr>, [LogInfo ''Status AI berhasil dimuat''])
   \<and> \<not> truthy (aiEnabled (fst (loadAIStatus initial_state
          (example_disk\<lparr>AI_STATUS_FILE := Some (Parses (JObj []))\<rparr>))))
   \<and> aiEnabled (fst (loadAIStatus initial_state
          (example_disk\<lparr>AI_STATUS_FILE := Some (Parses (JObj [(''aiEnabled'', JStr ''no'')]))\<rparr>)))
       = JStr ''no''"
  by (simp add: loadAIStatus_def example_disk_def)


end
